theory Spec2Isabelle
  imports Main "HOL-Library.Sublist"
begin

section \<open>The trailing window of chart data: \<open>disectChartData\<close>\<close>

text \<open>
  The function under verification is the JavaScript of \<open>disectChartData.js\<close>:
  \<^verbatim>\<open>
  function disectChartData(labels, data, length) {
    const endLabelSliceIdx = labels.length
    const endDataSliceIdx = data.length
    const startLabelIdx = Math.max(0, endLabelSliceIdx - length)
    const startDataIdx = Math.max(0, endDataSliceIdx - length)
    return {
      labels: labels.slice(startLabelIdx, endLabelSliceIdx),
      data: data.slice(startDataIdx, endDataSliceIdx),
    }
  }
  \<close>
  Arrays are lists and the elements are of any type: the function copies them and never
  inspects them. The \<open>length\<close> argument, documented as a number holding an integer, is an
  \<open>int\<close>. JavaScript subtracts in double precision, which is exact below \<open>2^53\<close>; beyond
  that the rounded difference still lies on the same side of \<open>0\<close> and of the array's
  length as the exact one, and the slice depends on nothing else, so integer arithmetic
  gives the same arrays.
\<close>

subsection \<open>\<open>Array.prototype.slice\<close> on integer arguments\<close>

text \<open>
  ECMAScript resolves each of the two indices relative to the array's length: a negative
  index counts from the end and stops at 0, any other index stops at the length. The
  result holds \<open>max (final - k) 0\<close> elements, read from position \<open>k\<close> on.
\<close>

definition relative_index :: "int \<Rightarrow> int \<Rightarrow> int" where
  "relative_index len i = (if i < 0 then max (len + i) 0 else min i len)"

definition slice :: "'a list \<Rightarrow> int \<Rightarrow> int \<Rightarrow> 'a list" where
  "slice xs start fin =
     (let len = int (length xs);
          k = relative_index len start;
          final = relative_index len fin;
          count = max (final - k) 0
      in take (nat count) (drop (nat k) xs))"

subsection \<open>The function on values\<close>

record ('a, 'b) chart_data =
  labels :: "'a list"
  data :: "'b list"

definition disectChartData :: "'a list \<Rightarrow> 'b list \<Rightarrow> int \<Rightarrow> ('a, 'b) chart_data" where
  "disectChartData ls ds len =
     (let endLabelSliceIdx = int (length ls);
          endDataSliceIdx = int (length ds);
          startLabelIdx = max 0 (endLabelSliceIdx - len);
          startDataIdx = max 0 (endDataSliceIdx - len)
      in \<lparr>labels = slice ls startLabelIdx endLabelSliceIdx,
          data = slice ds startDataIdx endDataSliceIdx\<rparr>)"

subsection \<open>The function on a store of arrays\<close>

text \<open>
  JavaScript passes arrays by reference, and \<open>slice\<close> allocates the array it returns. To
  speak about what a call leaves untouched, the store is the list of all arrays allocated
  so far, and a reference is a position in it. Reading \<open>.length\<close> or calling \<open>.slice\<close> on
  an argument that is no array of the store (\<open>undefined\<close>, \<open>null\<close>) raises a
  \<open>TypeError\<close>; that is the only way the function's body can throw.
\<close>

datatype error = TypeError

type_synonym ref = nat

type_synonym 'a store = "'a list list"

definition lookup :: "'a store \<Rightarrow> ref \<Rightarrow> 'a list option" where
  "lookup h r = (if r < length h then Some (h ! r) else None)"

definition alloc :: "'a store \<Rightarrow> 'a list \<Rightarrow> 'a store \<times> ref" where
  "alloc h xs = (h @ [xs], length h)"

definition array_length :: "'a store \<Rightarrow> ref \<Rightarrow> error + int" where
  "array_length h r =
     (case lookup h r of None \<Rightarrow> Inl TypeError | Some xs \<Rightarrow> Inr (int (length xs)))"

definition array_slice :: "'a store \<Rightarrow> ref \<Rightarrow> int \<Rightarrow> int \<Rightarrow> error + ('a store \<times> ref)" where
  "array_slice h r start fin =
     (case lookup h r of
        None \<Rightarrow> Inl TypeError
      | Some xs \<Rightarrow> Inr (alloc h (slice xs start fin)))"

record chart_refs =
  labels_ref :: ref
  data_ref :: ref

definition disectChartData_store ::
  "'a store \<Rightarrow> ref \<Rightarrow> ref \<Rightarrow> int \<Rightarrow> error + ('a store \<times> chart_refs)" where
  "disectChartData_store h l d len =
     (case array_length h l of
        Inl e \<Rightarrow> Inl e
      | Inr endLabelSliceIdx \<Rightarrow>
     (case array_length h d of
        Inl e \<Rightarrow> Inl e
      | Inr endDataSliceIdx \<Rightarrow>
     (let startLabelIdx = max 0 (endLabelSliceIdx - len);
          startDataIdx = max 0 (endDataSliceIdx - len)
      in case array_slice h l startLabelIdx endLabelSliceIdx of
           Inl e \<Rightarrow> Inl e
         | Inr (h1, rl) \<Rightarrow>
        (case array_slice h1 d startDataIdx endDataSliceIdx of
           Inl e \<Rightarrow> Inl e
         | Inr (h2, rd) \<Rightarrow> Inr (h2, \<lparr>labels_ref = rl, data_ref = rd\<rparr>)))))"

section \<open>Properties\<close>

subsection \<open>What \<open>slice\<close> computes when it runs to the end of the array\<close>

lemma slice_to_end:
  "slice xs (max 0 (int (length xs) - len)) (int (length xs)) =
     drop (nat (int (length xs) - len)) xs"
proof (cases "0 \<le> int (length xs) - len")
  case True
  then show ?thesis
    by (auto simp add: slice_def relative_index_def Let_def max_def min_def)
next
  case False
  then show ?thesis
    by (simp add: slice_def relative_index_def Let_def max_def min_def)
qed

lemma disectChartData_drop:
  "disectChartData ls ds len =
     \<lparr>labels = drop (nat (int (length ls) - len)) ls,
      data = drop (nat (int (length ds) - len)) ds\<rparr>"
  by (simp add: disectChartData_def Let_def slice_to_end)

lemma labels_disectChartData:
  "labels (disectChartData ls ds len) = drop (nat (int (length ls) - len)) ls"
  by (simp add: disectChartData_drop)

lemma data_disectChartData:
  "data (disectChartData ls ds len) = drop (nat (int (length ds) - len)) ds"
  by (simp add: disectChartData_drop)

lemma disectChartData_below_zero:
  assumes "len < 0"
  shows "disectChartData ls ds len = \<lparr>labels = [], data = []\<rparr>"
proof -
  have "length ls \<le> nat (int (length ls) - len)"
    and "length ds \<le> nat (int (length ds) - len)"
    using assms by arith+
  then show ?thesis
    by (simp add: disectChartData_drop)
qed

lemma drop_window_again:
  "drop (nat (int (length (drop (nat (int (length xs) - len)) xs)) - len))
        (drop (nat (int (length xs) - len)) xs) =
   drop (nat (int (length xs) - len)) xs"
proof (cases "0 \<le> len")
  case True
  then have "nat (int (length xs - nat (int (length xs) - len)) - len) = 0"
    by arith
  then show ?thesis
    by simp
next
  case False
  then have "length xs \<le> nat (int (length xs) - len)"
    by arith
  then show ?thesis
    by simp
qed

subsection \<open>Reading and extending the store\<close>

lemma lookup_append_old: "lookup h r = Some xs \<Longrightarrow> lookup (h @ hs) r = Some xs"
  by (auto simp add: lookup_def nth_append)

lemma lookup_new_first: "lookup (h @ [xs, ys]) (length h) = Some xs"
  by (simp add: lookup_def)

lemma lookup_new_second: "lookup (h @ [xs, ys]) (Suc (length h)) = Some ys"
  by (simp add: lookup_def nth_append)

lemma lookup_fresh: "lookup h (length h) = None" "lookup h (Suc (length h)) = None"
  by (simp_all add: lookup_def)

lemma array_length_Some: "lookup h r = Some xs \<Longrightarrow> array_length h r = Inr (int (length xs))"
  by (simp add: array_length_def)

lemma array_slice_Some:
  "lookup h r = Some xs \<Longrightarrow>
     array_slice h r start fin = Inr (h @ [slice xs start fin], length h)"
  by (simp add: array_slice_def alloc_def)

text \<open>
  On two arrays of the store, the call returns: it appends the two slices to the store, in
  the order the object literal evaluates them, and what it appends is what the function
  on values computes.
\<close>

lemma disectChartData_store_run:
  assumes l: "lookup h l = Some ls" and d: "lookup h d = Some ds"
  shows "disectChartData_store h l d len =
           Inr (h @ [labels (disectChartData ls ds len), data (disectChartData ls ds len)],
                \<lparr>labels_ref = length h, data_ref = Suc (length h)\<rparr>)"
proof -
  let ?h1 = "h @ [slice ls (max 0 (int (length ls) - len)) (int (length ls))]"
  have "lookup ?h1 d = Some ds"
    using d by (rule lookup_append_old)
  then have "array_slice ?h1 d (max 0 (int (length ds) - len)) (int (length ds)) =
               Inr (?h1 @ [slice ds (max 0 (int (length ds) - len)) (int (length ds))],
                    length ?h1)"
    by (rule array_slice_Some)
  then show ?thesis
    by (simp add: disectChartData_store_def disectChartData_def Let_def
        array_length_Some [OF l] array_length_Some [OF d] array_slice_Some [OF l])
qed

text \<open>The call throws exactly when one of its two arguments is no array.\<close>

lemma disectChartData_store_error:
  "(\<exists>e. disectChartData_store h l d len = Inl e) \<longleftrightarrow> lookup h l = None \<or> lookup h d = None"
proof (cases "lookup h l")
  case None
  then show ?thesis
    by (simp add: disectChartData_store_def array_length_def)
next
  case l: (Some ls)
  show ?thesis
  proof (cases "lookup h d")
    case None
    with l show ?thesis
      by (simp add: disectChartData_store_def array_length_def)
  next
    case (Some ds)
    with l show ?thesis
      by (simp add: disectChartData_store_run)
  qed
qed

section \<open>The claims\<close>

text \<open>
  Claim C1. For a window length strictly between 0 and the length of an input array, the
  output for that array has exactly that many elements and is the array's last elements
  in their original order: it is what remains after dropping the first
  \<open>length s - len\<close> elements, and the array is those dropped elements followed by the
  output. This holds for the labels and for the data, each against its own length.
\<close>

theorem disectChartData_interior:
  "(0 < len \<and> len < int (length ls) \<longrightarrow>
      length (labels (disectChartData ls ds len)) = nat len \<and>
      labels (disectChartData ls ds len) = drop (length ls - nat len) ls \<and>
      ls = take (length ls - nat len) ls @ labels (disectChartData ls ds len)) \<and>
   (0 < len \<and> len < int (length ds) \<longrightarrow>
      length (data (disectChartData ls ds len)) = nat len \<and>
      data (disectChartData ls ds len) = drop (length ds - nat len) ds \<and>
      ds = take (length ds - nat len) ds @ data (disectChartData ls ds len))"
proof -
  have "nat (int (length ls) - len) = length ls - nat len"
    and "nat (int (length ds) - len) = length ds - nat len"
    if "0 < len"
    using that by simp_all
  then show ?thesis
    by (auto simp add: labels_disectChartData data_disectChartData)
qed

theorem disectChartData_interior_witness:
  "disectChartData [''a'', ''b'', ''c''] [1, 2, 3 :: int] 2 =
     \<lparr>labels = [''b'', ''c''], data = [2, 3]\<rparr>"
proof -
  have "labels (disectChartData [''a'', ''b'', ''c''] [1, 2, 3 :: int] 2) = [''b'', ''c'']"
    and "data (disectChartData [''a'', ''b'', ''c''] [1, 2, 3 :: int] 2) = [2, 3]"
    using disectChartData_interior [of 2 "[''a'', ''b'', ''c'']" "[1, 2, 3 :: int]"]
    by simp_all
  then show ?thesis
    by (cases "disectChartData [''a'', ''b'', ''c''] [1, 2, 3 :: int] 2") simp
qed

text \<open>
  Claim C2. When the window length is at least the length of an input array, the output
  for that array is the array itself, unchanged: the start index stops at 0 and nothing
  fails.
\<close>

theorem disectChartData_oversized:
  "(int (length ls) \<le> len \<longrightarrow> labels (disectChartData ls ds len) = ls) \<and>
   (int (length ds) \<le> len \<longrightarrow> data (disectChartData ls ds len) = ds)"
  by (simp add: labels_disectChartData data_disectChartData)

theorem disectChartData_oversized_witness:
  "labels (disectChartData [''x'', ''y''] [7, 8, 9 :: int] 3) = [''x'', ''y''] \<and>
   data (disectChartData [''x'', ''y''] [7, 8, 9 :: int] 3) = [7, 8, 9]"
  using disectChartData_oversized [of "[''x'', ''y'']" 3 "[7, 8, 9 :: int]"]
  by simp

text \<open>
  Claim C3. For a negative window length both outputs are empty, and the call on two
  arrays returns (with two empty arrays) instead of throwing.
\<close>

theorem disectChartData_negative:
  "(len < 0 \<longrightarrow> disectChartData ls ds len = \<lparr>labels = [], data = []\<rparr>) \<and>
   (len < 0 \<and> lookup h l = Some xs \<and> lookup h d = Some ys \<longrightarrow>
      (\<exists>h' out. disectChartData_store h l d len = Inr (h', out) \<and>
         lookup h' (labels_ref out) = Some [] \<and> lookup h' (data_ref out) = Some []))"
  by (simp add: disectChartData_store_run disectChartData_below_zero lookup_new_first
      lookup_new_second)

theorem disectChartData_negative_witness:
  "disectChartData [''a'', ''b'', ''c''] [1, 2 :: int] (- 2) = \<lparr>labels = [], data = []\<rparr> \<and>
   (\<exists>h' out. disectChartData_store [[1, 2, 3], [4, 5 :: int]] 0 1 (- 2) = Inr (h', out) \<and>
      lookup h' (labels_ref out) = Some [] \<and> lookup h' (data_ref out) = Some [])"
proof -
  have l: "lookup [[1, 2, 3], [4, 5 :: int]] 0 = Some [1, 2, 3]"
    by (simp add: lookup_def)
  have d: "lookup [[1, 2, 3], [4, 5 :: int]] 1 = Some [4, 5]"
    by (simp add: lookup_def)
  show ?thesis
    using disectChartData_negative
      [of "- 2" "[''a'', ''b'', ''c'']" "[1, 2 :: int]"
          "[[1, 2, 3], [4, 5 :: int]]" 0 "[1, 2, 3]" 1 "[4, 5]"] l d
    by simp
qed

text \<open>
  Claim C4. The two outputs are computed independently. The labels output does not depend
  on the data input, nor the data output on the labels input; each is the slice of its own
  input from a start index clamped against that input's own length; so when the window
  covers both inputs, both come back as they are, whether or not their lengths agree.
\<close>

theorem disectChartData_independent:
  "labels (disectChartData ls ds len) = labels (disectChartData ls ds' len) \<and>
   data (disectChartData ls ds len) = data (disectChartData ls' ds len) \<and>
   labels (disectChartData ls ds len) =
     slice ls (max 0 (int (length ls) - len)) (int (length ls)) \<and>
   data (disectChartData ls ds len) =
     slice ds (max 0 (int (length ds) - len)) (int (length ds)) \<and>
   (int (length ls) \<le> len \<and> int (length ds) \<le> len \<longrightarrow>
      disectChartData ls ds len = \<lparr>labels = ls, data = ds\<rparr>)"
proof -
  have "labels (disectChartData ls ds len) =
          slice ls (max 0 (int (length ls) - len)) (int (length ls))"
    and "data (disectChartData ls ds len) =
          slice ds (max 0 (int (length ds) - len)) (int (length ds))"
    by (simp_all add: disectChartData_def Let_def)
  then show ?thesis
    by (simp add: disectChartData_drop)
qed

theorem disectChartData_independent_witness:
  "disectChartData [''a'', ''b'', ''c''] [1, 2 :: int] 5 =
     \<lparr>labels = [''a'', ''b'', ''c''], data = [1, 2]\<rparr> \<and>
   labels (disectChartData [''a'', ''b'', ''c''] [1, 2 :: int] 2) =
     labels (disectChartData [''a'', ''b'', ''c''] [True] 2)"
  using disectChartData_independent
      [of "[''a'', ''b'', ''c'']" "[1, 2 :: int]" 5 "[1, 2 :: int]" "[''a'', ''b'', ''c'']"]
    disectChartData_independent
      [of "[''a'', ''b'', ''c'']" "[1, 2 :: int]" 2 "[True]" "[''a'', ''b'', ''c'']"]
  by simp

text \<open>
  Claim C5. For every window length, negative, zero, interior or oversized, each output
  has exactly \<open>min (max len 0) (length s)\<close> elements, \<open>s\<close> being its own input.
\<close>

theorem disectChartData_length:
  "int (length (labels (disectChartData ls ds len))) = min (max len 0) (int (length ls)) \<and>
   int (length (data (disectChartData ls ds len))) = min (max len 0) (int (length ds))"
  by (auto simp add: labels_disectChartData data_disectChartData)

theorem disectChartData_length_witness:
  "length (labels (disectChartData [''a'', ''b'', ''c''] [1, 2 :: int] 5)) = 3 \<and>
   length (data (disectChartData [''a'', ''b'', ''c''] [1, 2 :: int] 5)) = 2 \<and>
   length (labels (disectChartData [''a'', ''b'', ''c''] [1, 2 :: int] (- 4))) = 0 \<and>
   length (data (disectChartData [''a'', ''b'', ''c''] [1, 2 :: int] 1)) = 1"
  using disectChartData_length [of "[''a'', ''b'', ''c'']" "[1, 2 :: int]" 5]
    disectChartData_length [of "[''a'', ''b'', ''c'']" "[1, 2 :: int]" "- 4"]
    disectChartData_length [of "[''a'', ''b'', ''c'']" "[1, 2 :: int]" 1]
  by simp

text \<open>
  Claim C6. Each output is a suffix of its input: the input is some list of elements
  followed by the output, so the output is contiguous and in the original order.
\<close>

theorem disectChartData_suffix:
  "suffix (labels (disectChartData ls ds len)) ls \<and>
   suffix (data (disectChartData ls ds len)) ds"
  by (simp add: labels_disectChartData data_disectChartData suffix_drop)

theorem disectChartData_suffix_witness:
  "suffix (labels (disectChartData [''a'', ''b'', ''c''] [1, 2, 3 :: int] 2)) [''a'', ''b'', ''c''] \<and>
   suffix (data (disectChartData [''a'', ''b'', ''c''] [1, 2, 3 :: int] 2)) [1, 2, 3]"
  using disectChartData_suffix [of "[''a'', ''b'', ''c'']" "[1, 2, 3 :: int]" 2]
  by simp

text \<open>
  Claim C7. The function is idempotent at a fixed window length: applied to its own two
  outputs with the same length, it returns them again.
\<close>

theorem disectChartData_idempotent:
  "disectChartData (labels (disectChartData ls ds len)) (data (disectChartData ls ds len)) len =
     disectChartData ls ds len"
  using drop_window_again [of ls len] drop_window_again [of ds len]
  by (simp add: disectChartData_drop)

theorem disectChartData_idempotent_witness:
  "disectChartData (labels (disectChartData [''a'', ''b'', ''c''] [1, 2, 3 :: int] 2))
     (data (disectChartData [''a'', ''b'', ''c''] [1, 2, 3 :: int] 2)) 2 =
   disectChartData [''a'', ''b'', ''c''] [1, 2, 3 :: int] 2"
  using disectChartData_idempotent [of "[''a'', ''b'', ''c'']" "[1, 2, 3 :: int]" 2]
  by simp

text \<open>
  Claim C8. With window length 0 both outputs are empty, whatever the inputs.
\<close>

theorem disectChartData_zero:
  "disectChartData ls ds 0 = \<lparr>labels = [], data = []\<rparr>"
  by (simp add: disectChartData_drop)

theorem disectChartData_zero_witness:
  "disectChartData [''a'', ''b'', ''c''] [1, 2, 3 :: int] 0 = \<lparr>labels = [], data = []\<rparr>"
  using disectChartData_zero [of "[''a'', ''b'', ''c'']" "[1, 2, 3 :: int]"]
  by simp

text \<open>
  Claim C9. The function is total on its documented domain: called on two arrays of the
  store (empty ones included) with any integer length, it does not throw; it returns
  references to two arrays, which hold what the function on values computes.
\<close>

theorem disectChartData_total:
  assumes "lookup h l = Some ls" and "lookup h d = Some ds"
  shows "\<exists>h' out xs ys. disectChartData_store h l d len = Inr (h', out) \<and>
           lookup h' (labels_ref out) = Some xs \<and> lookup h' (data_ref out) = Some ys \<and>
           \<lparr>labels = xs, data = ys\<rparr> = disectChartData ls ds len"
  using assms by (simp add: disectChartData_store_run lookup_new_first lookup_new_second)

theorem disectChartData_total_witness:
  "lookup [[''a'', ''b'', ''c''], []] 0 = Some [''a'', ''b'', ''c''] \<and>
   lookup [[''a'', ''b'', ''c''], []] 1 = Some [] \<and>
   (\<exists>h' out xs ys.
      disectChartData_store [[''a'', ''b'', ''c''], []] 0 1 10 = Inr (h', out) \<and>
      lookup h' (labels_ref out) = Some xs \<and> lookup h' (data_ref out) = Some ys \<and>
      \<lparr>labels = xs, data = ys\<rparr> = disectChartData [''a'', ''b'', ''c''] [] 10)"
proof -
  have l: "lookup [[''a'', ''b'', ''c''], []] 0 = Some [''a'', ''b'', ''c'']"
    by (simp add: lookup_def)
  have d: "lookup [[''a'', ''b'', ''c''], []] 1 = Some []"
    by (simp add: lookup_def)
  from disectChartData_total [OF l d, of 10] l d show ?thesis
    by blast
qed

text \<open>
  Claim C10. The function does not mutate its inputs. After a call on two arrays of the
  store (the same array twice included), both arguments hold what they held before, every
  array of the store before the call is unchanged, and the two returned references are
  distinct arrays allocated by the call: neither was in the store before.
\<close>

theorem disectChartData_frame:
  assumes "lookup h l = Some ls" and "lookup h d = Some ds"
  shows "\<exists>h' out. disectChartData_store h l d len = Inr (h', out) \<and>
           lookup h' l = Some ls \<and> lookup h' d = Some ds \<and>
           take (length h) h' = h \<and>
           lookup h (labels_ref out) = None \<and> lookup h (data_ref out) = None \<and>
           labels_ref out \<noteq> data_ref out \<and>
           lookup h' (labels_ref out) = Some (labels (disectChartData ls ds len)) \<and>
           lookup h' (data_ref out) = Some (data (disectChartData ls ds len))"
  using assms
  by (simp add: disectChartData_store_run lookup_append_old lookup_new_first
      lookup_new_second lookup_fresh)

theorem disectChartData_frame_witness:
  "lookup [[1, 2, 3 :: int]] 0 = Some [1, 2, 3] \<and>
   (\<exists>h' out. disectChartData_store [[1, 2, 3 :: int]] 0 0 2 = Inr (h', out) \<and>
      lookup h' 0 = Some [1, 2, 3] \<and>
      take 1 h' = [[1, 2, 3]] \<and>
      lookup [[1, 2, 3 :: int]] (labels_ref out) = None \<and>
      lookup [[1, 2, 3 :: int]] (data_ref out) = None \<and>
      labels_ref out \<noteq> data_ref out \<and>
      lookup h' (labels_ref out) = Some [2, 3] \<and>
      lookup h' (data_ref out) = Some [2, 3])"
proof -
  have l: "lookup [[1, 2, 3 :: int]] 0 = Some [1, 2, 3]"
    by (simp add: lookup_def)
  have w: "disectChartData [1, 2, 3 :: int] [1, 2, 3 :: int] 2 =
             \<lparr>labels = [2, 3], data = [2, 3]\<rparr>"
    by (simp add: disectChartData_drop)
  from disectChartData_frame [OF l l, of 2] l show ?thesis
    by (simp add: w)
qed

end
